theory Spec2Isabelle
  imports Main "HOL-Library.Word" "HOL-Library.Char_ord" "HOL-Library.List_Lexorder"
begin

section \<open>The e-paper converter \<^verbatim>\<open>convertobmp.py\<close>\<close>

text \<open>
  The script opens an image with Pillow, resizes it to one of two resolutions, quantizes
  it to a fixed palette and saves it as a bitmap beside the input; \<^verbatim>\<open>process_path\<close>
  does so for one file or for the image files of a directory.

  Pillow and \<^verbatim>\<open>pathlib\<close> are not part of the repository. What the script computes itself
  (the palette table, the target size, the mode dispatch, the output name, the exception
  handler, the directory loop) is defined here from its text. What Pillow computes
  (decoding, resampling, the choice of a palette index for a pixel, encoding) is a
  parameter: a record of functions about which nothing is assumed. The file system and
  the two output streams are explicit state.
\<close>

subsection \<open>The palette constant\<close>

text \<open>
  \<^verbatim>\<open>EPAPER_PALETTE\<close>: a flat tuple of channel values, seven colours followed by
  \<^verbatim>\<open>(0, 0, 0) * 249\<close>, the tuple repeated 249 times.
\<close>

definition EPAPER_PALETTE :: "int list" where
  "EPAPER_PALETTE =
     [0, 0, 0,
      255, 255, 255,
      255, 255, 0,
      255, 0, 0,
      0, 0, 0,
      0, 0, 255,
      0, 255, 0] @ concat (replicate 249 [0, 0, 0])"

subsection \<open>Images\<close>

text \<open>
  An RGB image has a size (width, height) and its pixels in raster order. A mode \<^verbatim>\<open>P\<close>
  image stores one byte per pixel, an index into its palette, a flat table of channel
  values.
\<close>

type_synonym rgb = "int \<times> int \<times> int"

record rgb_image =
  im_size :: "nat \<times> nat"
  im_pixels :: "rgb list"

record p_image =
  p_size :: "nat \<times> nat"
  p_pixels :: "8 word list"
  p_palette :: "int list"

subsection \<open>Exceptions\<close>

text \<open>
  An exception is its class name and the text \<^verbatim>\<open>str(e)\<close> gives. Only subclasses of
  \<^verbatim>\<open>Exception\<close> are values of this type: the operations of the script raise no other.
\<close>

datatype exn = Exception string string

definition ValueError :: "string \<Rightarrow> exn" where
  "ValueError msg = Exception ''ValueError'' msg"

fun exn_str :: "exn \<Rightarrow> string" where
  "exn_str (Exception cls msg) = msg"

subsection \<open>Paths\<close>

text \<open>
  A path is the list \<^verbatim>\<open>Path.parts\<close>; an absolute path starts with the part \<^verbatim>\<open>/\<close>.
  Paths are ordered as \<^verbatim>\<open>pathlib\<close> orders them, part by part, which is the
  lexicographic order of lists of strings.
\<close>

type_synonym path = "string list"

fun join_parts :: "string list \<Rightarrow> string" where
  "join_parts [] = []"
| "join_parts [x] = x"
| "join_parts (x # y # ys) = x @ ''/'' @ join_parts (y # ys)"

definition path_str :: "path \<Rightarrow> string" where
  "path_str p =
     (case p of
        [] \<Rightarrow> ''.''
      | a # rest \<Rightarrow> if a = ''/'' then ''/'' @ join_parts rest else join_parts p)"

definition path_name :: "path \<Rightarrow> string" where
  "path_name p = (if p = [] \<or> p = [''/''] then [] else last p)"

text \<open>\<^verbatim>\<open>str.rfind\<close> for one character: the last index where it stands, or -1.\<close>

fun rfind :: "char \<Rightarrow> string \<Rightarrow> int" where
  "rfind c [] = - 1"
| "rfind c (x # xs) =
     (let r = rfind c xs in if 0 \<le> r then r + 1 else if x = c then 0 else - 1)"

text \<open>
  \<^verbatim>\<open>PurePath.suffix\<close> and \<^verbatim>\<open>PurePath.stem\<close>: with \<^verbatim>\<open>i = name.rfind('.')\<close>, the
  name is split at \<^verbatim>\<open>i\<close> when \<^verbatim>\<open>0 < i < len(name) - 1\<close>; otherwise the suffix is
  empty and the stem is the name.
\<close>

definition path_suffix :: "path \<Rightarrow> string" where
  "path_suffix p =
     (let name = path_name p; i = rfind (CHR ''.'') name in
      if 0 < i \<and> i < int (length name) - 1 then drop (nat i) name else [])"

definition path_stem :: "path \<Rightarrow> string" where
  "path_stem p =
     (let name = path_name p; i = rfind (CHR ''.'') name in
      if 0 < i \<and> i < int (length name) - 1 then take (nat i) name else name)"

text \<open>
  \<^verbatim>\<open>PurePath.with_name\<close> raises \<^verbatim>\<open>ValueError\<close> when the path has no name or the new
  name is not a single part, and otherwise replaces the last part.
\<close>

definition quoted :: "string \<Rightarrow> string" where
  "quoted s = [CHR 0x27] @ s @ [CHR 0x27]"

definition with_name :: "path \<Rightarrow> string \<Rightarrow> exn + path" where
  "with_name p name =
     (if path_name p = []
        then Inl (ValueError (''PosixPath('' @ quoted (path_str p) @ '') has an empty name''))
      else if name = [] \<or> CHR ''/'' \<in> set name \<or> name = ''.''
        then Inl (ValueError (''Invalid name '' @ quoted name))
      else Inr (butlast p @ [name]))"

text \<open>
  \<^verbatim>\<open>str.lower\<close> on the letters A to Z; every other character is kept. (A string is
  compared with \<^verbatim>\<open>.jpg\<close>, \<^verbatim>\<open>.jpeg\<close> and \<^verbatim>\<open>.png\<close> only, and no character outside
  A to Z has one of their letters as its lower case.)
\<close>

definition lower_char :: "char \<Rightarrow> char" where
  "lower_char c =
     (case map_of (zip ''ABCDEFGHIJKLMNOPQRSTUVWXYZ'' ''abcdefghijklmnopqrstuvwxyz'') c of
        Some l \<Rightarrow> l
      | None \<Rightarrow> c)"

definition lower :: "string \<Rightarrow> string" where
  "lower s = map lower_char s"

subsection \<open>The file system and the output streams\<close>

text \<open>
  A file holds either a bitmap, which stores its pixels as they are, or other bytes (an
  encoded image, or anything else). The file system lists its entries; the first entry
  for a path is the one in force, so that writing a file puts an entry in front. The
  calls that reach the outside (opening a file, saving one, printing a line to standard
  output or to standard error) are recorded in order.
\<close>

datatype content = Bmp rgb_image | Data "8 word list"

datatype node = File content | Dir

type_synonym fs = "(path \<times> node) list"

datatype event = EvOpen path | EvSave path | EvPrint string | EvPrintErr string

record world =
  files :: fs
  trace :: "event list"

definition is_file :: "fs \<Rightarrow> path \<Rightarrow> bool" where
  "is_file f p = (case map_of f p of Some (File c) \<Rightarrow> True | _ \<Rightarrow> False)"

definition is_dir :: "fs \<Rightarrow> path \<Rightarrow> bool" where
  "is_dir f p = (case map_of f p of Some Dir \<Rightarrow> True | _ \<Rightarrow> False)"

text \<open>
  \<^verbatim>\<open>Path.glob\<close> for the two patterns the script uses: \<^verbatim>\<open>*\<close> gives the entries of
  the directory itself, \<^verbatim>\<open>**/*\<close> the entries at any depth below it, each once, in the
  order the file system lists them. Any other pattern is never passed.
\<close>

definition glob :: "fs \<Rightarrow> path \<Rightarrow> string \<Rightarrow> path list" where
  "glob f root pattern =
     (if pattern = ''*'' then
        filter (\<lambda>q. length q = length root + 1 \<and> take (length root) q = root)
          (remdups (map fst f))
      else if pattern = ''**/*'' then
        filter (\<lambda>q. length root < length q \<and> take (length root) q = root)
          (remdups (map fst f))
      else [])"

definition emit :: "event \<Rightarrow> world \<Rightarrow> world" where
  "emit e w = w\<lparr>trace := trace w @ [e]\<rparr>"

subsection \<open>Pillow\<close>

text \<open>
  The operations of Pillow the script calls, as parameters. \<^verbatim>\<open>Image.open\<close> receives
  the path and what the file system holds there; \<^verbatim>\<open>convert('RGB')\<close> on the opened image
  gives an RGB image; \<^verbatim>\<open>ImageOps.fit\<close> (called with Lanczos resampling and centering
  (0.5, 0.5)) and \<^verbatim>\<open>ImageOps.pad\<close> (called with a fill colour and centering (0.5, 0.5))
  take an image and a size; the quantizer takes the image, the dither number and the
  palette image and chooses the bytes of a mode \<^verbatim>\<open>P\<close> image; \<^verbatim>\<open>save\<close> may refuse to
  write. Each may raise. \<open>absent_entry\<close> is the colour Pillow shows for an index beyond
  the end of a palette table.
\<close>

record 'img pil =
  Image_open :: "path \<Rightarrow> node option \<Rightarrow> exn + 'img"
  convert_RGB :: "'img \<Rightarrow> exn + rgb_image"
  ImageOps_fit :: "rgb_image \<Rightarrow> nat \<times> nat \<Rightarrow> exn + rgb_image"
  ImageOps_pad :: "rgb_image \<Rightarrow> nat \<times> nat \<Rightarrow> rgb \<Rightarrow> exn + rgb_image"
  quantize_to :: "rgb_image \<Rightarrow> int \<Rightarrow> p_image \<Rightarrow> exn + p_image"
  absent_entry :: "nat \<Rightarrow> rgb"
  save_exn :: "path \<Rightarrow> fs \<Rightarrow> rgb_image \<Rightarrow> exn option"

text \<open>
  \<^verbatim>\<open>Image.quantize(dither=..., palette=pal)\<close> returns the quantizer's image with the
  palette of \<^verbatim>\<open>pal\<close> as its palette.
\<close>

definition quantize :: "'img pil \<Rightarrow> rgb_image \<Rightarrow> int \<Rightarrow> p_image \<Rightarrow> exn + p_image" where
  "quantize lib img dither pal =
     (case quantize_to lib img dither pal of
        Inl e \<Rightarrow> Inl e
      | Inr q \<Rightarrow> Inr (q\<lparr>p_palette := p_palette pal\<rparr>))"

text \<open>
  \<^verbatim>\<open>convert('RGB')\<close> on a mode \<^verbatim>\<open>P\<close> image looks every index up in the palette, whose
  flat table is read three values at a time, one RGB entry after the other.
\<close>

fun triples :: "int list \<Rightarrow> rgb list" where
  "triples (r # g # b # rest) = (r, g, b) # triples rest"
| "triples rest = []"

definition palette_entry :: "'img pil \<Rightarrow> int list \<Rightarrow> nat \<Rightarrow> rgb" where
  "palette_entry lib pal i =
     (if i < length (triples pal) then triples pal ! i else absent_entry lib i)"

definition P_convert_RGB :: "'img pil \<Rightarrow> p_image \<Rightarrow> rgb_image" where
  "P_convert_RGB lib q =
     \<lparr>im_size = p_size q,
      im_pixels = map (\<lambda>i. palette_entry lib (p_palette q) (unat i)) (p_pixels q)\<rparr>"

text \<open>
  \<^verbatim>\<open>Image.save\<close> to a path: a directory there is an error, as is whatever the library
  refuses; otherwise the path holds the bitmap afterwards, whatever it held before.
\<close>

definition save :: "'img pil \<Rightarrow> path \<Rightarrow> rgb_image \<Rightarrow> world \<Rightarrow> (exn + unit) \<times> world" where
  "save lib p img w =
     (let w1 = emit (EvSave p) w in
      if is_dir (files w) p then
        (Inl (Exception ''IsADirectoryError''
                (''[Errno 21] Is a directory: '' @ quoted (path_str p))), w1)
      else
        (case save_exn lib p (files w) img of
           Some e \<Rightarrow> (Inl e, w1)
         | None \<Rightarrow> (Inr (), w1\<lparr>files := (p, File (Bmp img)) # files w1\<rparr>)))"

subsection \<open>\<^verbatim>\<open>convert_image\<close>\<close>

text \<open>Lines 37 to 46: the target size, from the override or from the source's size.\<close>

definition target_size :: "string option \<Rightarrow> nat \<Rightarrow> nat \<Rightarrow> nat \<times> nat" where
  "target_size direction width height =
     (if direction = Some ''landscape'' then (800, 480)
      else if direction = Some ''portrait'' then (480, 800)
      else if width > height then (800, 480)
      else (480, 800))"

text \<open>Lines 48 to 55: the mode selects the resampler; any other mode raises.\<close>

definition resample :: "'img pil \<Rightarrow> string \<Rightarrow> rgb_image \<Rightarrow> nat \<times> nat \<Rightarrow> exn + rgb_image" where
  "resample lib mode img target =
     (if mode = ''scale'' then ImageOps_fit lib img target
      else if mode = ''cut'' then ImageOps_pad lib img target (255, 255, 255)
      else Inl (ValueError (''Unknown mode: '' @ mode)))"

text \<open>Lines 58 and 59: a 1 by 1 mode \<^verbatim>\<open>P\<close> image carrying the palette.\<close>

definition pal_image :: p_image where
  "pal_image = \<lparr>p_size = (1, 1), p_pixels = [0], p_palette = EPAPER_PALETTE\<rparr>"

text \<open>Lines 34 to 62, from the decoded image to \<^verbatim>\<open>quantized_image\<close>.\<close>

definition render :: "'img pil \<Rightarrow> rgb_image \<Rightarrow> string option \<Rightarrow> string \<Rightarrow> int \<Rightarrow> exn + rgb_image" where
  "render lib img direction mode dither_algorithm =
     (let (width, height) = im_size img;
          target = target_size direction width height in
      case resample lib mode img target of
        Inl e \<Rightarrow> Inl e
      | Inr output_image \<Rightarrow>
          (case quantize lib output_image dither_algorithm pal_image of
             Inl e \<Rightarrow> Inl e
           | Inr q \<Rightarrow> Inr (P_convert_RGB lib q)))"

definition success_message :: "path \<Rightarrow> path \<Rightarrow> string" where
  "success_message input_path output_filename =
     ''Successfully converted '' @ path_str input_path @ '' to '' @ path_str output_filename"

definition error_message :: "path \<Rightarrow> exn \<Rightarrow> string" where
  "error_message input_path e =
     ''Error processing '' @ path_str input_path @ '': '' @ exn_str e"

text \<open>
  The body of the \<^verbatim>\<open>try\<close>: the first exception ends it. It returns the output path.
\<close>

definition try_block ::
  "'img pil \<Rightarrow> path \<Rightarrow> string option \<Rightarrow> string \<Rightarrow> int \<Rightarrow> world \<Rightarrow> (exn + path) \<times> world" where
  "try_block lib input_path direction mode dither_algorithm w =
     (let w1 = emit (EvOpen input_path) w in
      case Image_open lib input_path (map_of (files w) input_path) of
        Inl e \<Rightarrow> (Inl e, w1)
      | Inr opened \<Rightarrow>
      (case convert_RGB lib opened of
        Inl e \<Rightarrow> (Inl e, w1)
      | Inr img \<Rightarrow>
      (case render lib img direction mode dither_algorithm of
        Inl e \<Rightarrow> (Inl e, w1)
      | Inr quantized_image \<Rightarrow>
      (case with_name input_path (path_stem input_path @ ''_'' @ mode @ ''_output.bmp'') of
        Inl e \<Rightarrow> (Inl e, w1)
      | Inr output_filename \<Rightarrow>
      (case save lib output_filename quantized_image w1 of
        (Inl e, w2) \<Rightarrow> (Inl e, w2)
      | (Inr u, w2) \<Rightarrow>
          (Inr output_filename,
           emit (EvPrint (success_message input_path output_filename)) w2))))))"

text \<open>The \<^verbatim>\<open>except Exception\<close> handler: the error goes to standard error.\<close>

definition convert_image ::
  "'img pil \<Rightarrow> path \<Rightarrow> string option \<Rightarrow> string \<Rightarrow> int \<Rightarrow> world \<Rightarrow> bool \<times> world" where
  "convert_image lib input_path direction mode dither_algorithm w =
     (case try_block lib input_path direction mode dither_algorithm w of
        (Inr output_filename, w') \<Rightarrow> (True, w')
      | (Inl e, w') \<Rightarrow> (False, emit (EvPrintErr (error_message input_path e)) w'))"

subsection \<open>\<^verbatim>\<open>process_path\<close>\<close>

definition image_suffixes :: "string list" where
  "image_suffixes = [''.jpg'', ''.jpeg'', ''.png'']"

text \<open>
  The loop over the sorted entries: \<^verbatim>\<open>p.is_file()\<close> is asked when the loop reaches
  \<^verbatim>\<open>p\<close>, in the file system as the conversions before it left it.
\<close>

fun process_entries ::
  "'img pil \<Rightarrow> string option \<Rightarrow> string \<Rightarrow> int \<Rightarrow> path list \<Rightarrow> world \<Rightarrow> world" where
  "process_entries lib direction mode dither [] w = w"
| "process_entries lib direction mode dither (p # ps) w =
     process_entries lib direction mode dither ps
       (if is_file (files w) p \<and> lower (path_suffix p) \<in> set image_suffixes
        then snd (convert_image lib p direction mode dither w)
        else w)"

definition invalid_path_message :: "path \<Rightarrow> string" where
  "invalid_path_message p =
     ''Error: Path '' @ quoted (path_str p) @ '' does not exist or is not a valid file/directory.''"

definition process_path ::
  "'img pil \<Rightarrow> path \<Rightarrow> bool \<Rightarrow> string option \<Rightarrow> string \<Rightarrow> int \<Rightarrow> world \<Rightarrow> world" where
  "process_path lib root recursive direction mode dither w =
     (if is_file (files w) root then
        (if lower (path_suffix root) \<in> set image_suffixes
         then snd (convert_image lib root direction mode dither w)
         else w)
      else if is_dir (files w) root then
        (let pattern = (if recursive then ''**/*'' else ''*'') in
         process_entries lib direction mode dither (sort (glob (files w) root pattern)) w)
      else emit (EvPrintErr (invalid_path_message root)) w)"

subsection \<open>Reading the record of a run\<close>

text \<open>
  Every call of \<^verbatim>\<open>convert_image\<close> opens its input first, so the paths opened are the
  files converted, in order. A report is a line printed to either stream.
\<close>

fun opened_paths :: "event list \<Rightarrow> path list" where
  "opened_paths [] = []"
| "opened_paths (EvOpen p # evs) = p # opened_paths evs"
| "opened_paths (e # evs) = opened_paths evs"

fun is_report :: "event \<Rightarrow> bool" where
  "is_report (EvPrint s) = True"
| "is_report (EvPrintErr s) = True"
| "is_report e = False"

definition new_events :: "world \<Rightarrow> world \<Rightarrow> event list" where
  "new_events w w' = drop (length (trace w)) (trace w')"

text \<open>The report of one file: the success line, or the error line with path and reason.\<close>

definition report_for :: "path \<Rightarrow> event \<Rightarrow> bool" where
  "report_for p ev \<longleftrightarrow>
     (\<exists>out. ev = EvPrint (success_message p out)) \<or>
     (\<exists>e. ev = EvPrintErr (''Error processing '' @ path_str p @ '': '' @ exn_str e))"

text \<open>The files a directory run is to convert: regular files with an image suffix.\<close>

definition wanted :: "fs \<Rightarrow> path \<Rightarrow> bool" where
  "wanted f q \<longleftrightarrow> is_file f q \<and> lower (path_suffix q) \<in> set image_suffixes"

text \<open>The files \<^verbatim>\<open>process_path\<close> hands to \<^verbatim>\<open>convert_image\<close>, in the order of the calls.\<close>

definition converted ::
  "'img pil \<Rightarrow> path \<Rightarrow> bool \<Rightarrow> string option \<Rightarrow> string \<Rightarrow> int \<Rightarrow> world \<Rightarrow> path list" where
  "converted lib root recursive d m x w =
     opened_paths (new_events w (process_path lib root recursive d m x w))"

text \<open>The colours of the first seven palette entries; black stands there twice.\<close>

definition palette_colors :: "rgb set" where
  "palette_colors =
     {(0, 0, 0), (255, 255, 255), (255, 255, 0), (255, 0, 0), (0, 0, 255), (0, 255, 0)}"

subsection \<open>A small library and a small directory, for concrete runs\<close>

text \<open>
  A stand-in for Pillow on which the definitions can be run: a file of \<open>3n\<close> bytes decodes
  to \<open>n\<close> pixels in a row, the resamplers fill the target with one colour, the quantizer
  picks white for a bright pixel and black for a dark one.
\<close>

fun toy_pixels :: "8 word list \<Rightarrow> rgb list option" where
  "toy_pixels [] = Some []"
| "toy_pixels (r # g # b # rest) = map_option (Cons (uint r, uint g, uint b)) (toy_pixels rest)"
| "toy_pixels rest = None"

definition toy_open :: "path \<Rightarrow> node option \<Rightarrow> exn + rgb_image" where
  "toy_open p n =
     (case n of
        None \<Rightarrow> Inl (Exception ''FileNotFoundError''
                  (''[Errno 2] No such file or directory: '' @ quoted (path_str p)))
      | Some Dir \<Rightarrow> Inl (Exception ''IsADirectoryError''
                  (''[Errno 21] Is a directory: '' @ quoted (path_str p)))
      | Some (File (Bmp img)) \<Rightarrow> Inr img
      | Some (File (Data bs)) \<Rightarrow>
          (case toy_pixels bs of
             None \<Rightarrow> Inl (Exception ''UnidentifiedImageError''
                       (''cannot identify image file '' @ quoted (path_str p)))
           | Some px \<Rightarrow> Inr \<lparr>im_size = (length px, 1), im_pixels = px\<rparr>))"

definition toy_fit :: "rgb_image \<Rightarrow> nat \<times> nat \<Rightarrow> exn + rgb_image" where
  "toy_fit img sz =
     (case im_pixels img of
        [] \<Rightarrow> Inl (ValueError ''empty image'')
      | c # cs \<Rightarrow> Inr \<lparr>im_size = sz, im_pixels = replicate (fst sz * snd sz) c\<rparr>)"

definition toy_pad :: "rgb_image \<Rightarrow> nat \<times> nat \<Rightarrow> rgb \<Rightarrow> exn + rgb_image" where
  "toy_pad img sz colour = Inr \<lparr>im_size = sz, im_pixels = replicate (fst sz * snd sz) colour\<rparr>"

definition toy_index :: "rgb \<Rightarrow> 8 word" where
  "toy_index c = (case c of (r, g, b) \<Rightarrow> if 383 \<le> r + g + b then 1 else 0)"

definition toy_quantize :: "rgb_image \<Rightarrow> int \<Rightarrow> p_image \<Rightarrow> exn + p_image" where
  "toy_quantize img dither pal =
     Inr \<lparr>p_size = im_size img, p_pixels = map toy_index (im_pixels img), p_palette = []\<rparr>"

definition toy_lib :: "rgb_image pil" where
  "toy_lib =
     \<lparr>Image_open = toy_open, convert_RGB = Inr, ImageOps_fit = toy_fit, ImageOps_pad = toy_pad,
      quantize_to = toy_quantize, absent_entry = (\<lambda>i. (int i, int i, int i)),
      save_exn = (\<lambda>p f img. None)\<rparr>"

definition pics :: world where
  "pics =
     \<lparr>files =
        [([''pics''], Dir),
         ([''pics'', ''b.JPG''], File (Data [10, 20, 30, 250, 250, 250])),
         ([''pics'', ''a.png''], File (Data [1, 2])),
         ([''pics'', ''notes.txt''], File (Data [])),
         ([''pics'', ''sub''], Dir),
         ([''pics'', ''sub'', ''c.jpeg''], File (Data [255, 255, 0]))],
      trace = []\<rparr>"

definition two_pixels :: rgb_image where
  "two_pixels = \<lparr>im_size = (2, 1), im_pixels = [(250, 240, 10), (0, 0, 0)]\<rparr>"

definition all_white :: rgb_image where
  "all_white = \<lparr>im_size = (800, 480), im_pixels = replicate 384000 (255, 255, 255)\<rparr>"

definition all_black :: rgb_image where
  "all_black = \<lparr>im_size = (800, 480), im_pixels = replicate 384000 (0, 0, 0)\<rparr>"

definition pics_b :: world where
  "pics_b =
     \<lparr>files = ([''pics'', ''b_scale_output.bmp''], File (Bmp all_black)) # files pics,
      trace = [EvOpen [''pics'', ''b.JPG''], EvSave [''pics'', ''b_scale_output.bmp''],
           EvPrint ''Successfully converted pics/b.JPG to pics/b_scale_output.bmp'']\<rparr>"

text \<open>
  The worlds the runs below pass through: the directory after the corrupt \<^verbatim>\<open>a.png\<close> was
  refused, after \<^verbatim>\<open>b.JPG\<close> was converted, after the recursive run reached \<^verbatim>\<open>c.jpeg\<close>; the
  directory after a conversion with an unknown mode, of a file that is there and of one
  that is not; and a directory that already holds the output file.
\<close>

definition pics_a :: world where
  "pics_a =
     pics\<lparr>trace :=
        [EvOpen [''pics'', ''a.png''],
         EvPrintErr (''Error processing pics/a.png: cannot identify image file ''
           @ quoted ''pics/a.png'')]\<rparr>"

definition pics_run :: world where
  "pics_run =
     \<lparr>files = ([''pics'', ''b_scale_output.bmp''], File (Bmp all_black)) # files pics,
      trace =
        [EvOpen [''pics'', ''a.png''],
         EvPrintErr (''Error processing pics/a.png: cannot identify image file ''
           @ quoted ''pics/a.png''),
         EvOpen [''pics'', ''b.JPG''],
         EvSave [''pics'', ''b_scale_output.bmp''],
         EvPrint ''Successfully converted pics/b.JPG to pics/b_scale_output.bmp'']\<rparr>"

definition white_tall :: rgb_image where
  "white_tall = \<lparr>im_size = (480, 800), im_pixels = replicate 384000 (255, 255, 255)\<rparr>"

definition pics_rec :: world where
  "pics_rec =
     \<lparr>files = ([''pics'', ''sub'', ''c_scale_output.bmp''], File (Bmp white_tall)) # files pics_run,
      trace = trace pics_run @
        [EvOpen [''pics'', ''sub'', ''c.jpeg''],
         EvSave [''pics'', ''sub'', ''c_scale_output.bmp''],
         EvPrint ''Successfully converted pics/sub/c.jpeg to pics/sub/c_scale_output.bmp'']\<rparr>"

definition pics_poster :: world where
  "pics_poster =
     pics\<lparr>trace := [EvOpen [''pics'', ''b.JPG''],
        EvPrintErr ''Error processing pics/b.JPG: Unknown mode: poster'']\<rparr>"

definition pics_gone :: world where
  "pics_gone =
     pics\<lparr>trace := [EvOpen [''pics'', ''gone.jpg''],
        EvPrintErr (''Error processing pics/gone.jpg: [Errno 2] No such file or directory: ''
          @ quoted ''pics/gone.jpg'')]\<rparr>"

definition desk :: world where
  "desk =
     \<lparr>files = [([''photo_scale_output.bmp''], File (Data [7])),
               ([''photo.jpg''], File (Data [200, 200, 200, 10, 10, 10]))],
      trace = []\<rparr>"

definition desk_done :: world where
  "desk_done =
     \<lparr>files = ([''photo_scale_output.bmp''], File (Bmp all_white)) # files desk,
      trace = [EvOpen [''photo.jpg''], EvSave [''photo_scale_output.bmp''],
         EvPrint ''Successfully converted photo.jpg to photo_scale_output.bmp'']\<rparr>"

section \<open>Lemmas\<close>

subsection \<open>The palette table\<close>

lemma triples_concat_replicate:
  "triples (concat (replicate n [a, b, c]) @ xs) = replicate n (a, b, c) @ triples xs"
  by (induction n) simp_all

lemma triples_EPAPER:
  "triples EPAPER_PALETTE =
     [(0, 0, 0), (255, 255, 255), (255, 255, 0), (255, 0, 0), (0, 0, 0), (0, 0, 255), (0, 255, 0)]
     @ replicate 249 (0, 0, 0)"
  using triples_concat_replicate [of 249 0 0 0 "[]"]
  by (simp add: EPAPER_PALETTE_def)

lemma length_concat_replicate: "length (concat (replicate n [a, b, c])) = 3 * n"
  by (induction n) simp_all

lemma length_EPAPER: "length EPAPER_PALETTE = 768"
  by (simp add: EPAPER_PALETTE_def length_concat_replicate)

lemma set_triples_EPAPER: "set (triples EPAPER_PALETTE) = palette_colors"
  by (auto simp: triples_EPAPER palette_colors_def)

lemma palette_entry_EPAPER: "palette_entry lib EPAPER_PALETTE (unat (i :: 8 word)) \<in> palette_colors"
proof -
  have "unat i < 256" using unsigned_less [of i, where ?'a = nat] by simp
  then have "unat i < length (triples EPAPER_PALETTE)" by (simp add: triples_EPAPER)
  then show ?thesis
    unfolding palette_entry_def set_triples_EPAPER [symmetric] by simp
qed

lemma render_palette:
  "render lib img direction mode dither = Inr out \<Longrightarrow> set (im_pixels out) \<subseteq> palette_colors"
  by (auto simp: render_def quantize_def P_convert_RGB_def pal_image_def palette_entry_EPAPER
           split: sum.splits prod.splits)

subsection \<open>Suffixes and output names\<close>

lemma rfind_range: "rfind c xs = - 1 \<or> 0 \<le> rfind c xs"
  by (induction xs) (auto simp: Let_def)

lemma rfind_append:
  "rfind c (xs @ ys) = (if 0 \<le> rfind c ys then int (length xs) + rfind c ys else rfind c xs)"
  using rfind_range [of c ys] by (induction xs) (auto simp: Let_def)

lemma rfind_output: "rfind (CHR ''.'') (s @ ''_output.bmp'') = int (length s) + 7"
  by (simp add: rfind_append)

lemma path_name_snoc: "n \<noteq> ''/'' \<Longrightarrow> path_name (d @ [n]) = n"
  by (auto simp: path_name_def)

lemma path_suffix_output: "path_suffix (d @ [s @ ''_output.bmp'']) = ''.bmp''"
proof -
  have "s @ ''_output.bmp'' \<noteq> ''/''" by (cases s) auto
  then have "path_name (d @ [s @ ''_output.bmp'']) = s @ ''_output.bmp''"
    by (rule path_name_snoc)
  moreover have "nat (int (length s) + 7) = length s + 7" by simp
  ultimately show ?thesis
    by (simp add: path_suffix_def rfind_output)
qed

lemma with_name_suffix:
  "with_name p (s @ ''_output.bmp'') = Inr out \<Longrightarrow> path_suffix out = ''.bmp''"
  by (auto simp: with_name_def path_suffix_output split: if_splits)

lemma bmp_not_image_suffix: "lower ''.bmp'' \<notin> set image_suffixes"
  by (simp add: lower_def lower_char_def image_suffixes_def)

subsection \<open>What one conversion does\<close>

lemma opened_paths_append [simp]: "opened_paths (xs @ ys) = opened_paths xs @ opened_paths ys"
  by (induction xs rule: opened_paths.induct) simp_all

lemma try_block_Inl:
  "try_block lib p d m x w = (Inl e, w') \<Longrightarrow>
     \<exists>evs. w' = w\<lparr>trace := trace w @ EvOpen p # evs\<rparr> \<and>
       (evs = [] \<or> (\<exists>out. evs = [EvSave out]))"
  by (auto simp: try_block_def save_def emit_def Let_def
           split: sum.splits if_splits option.splits prod.splits)

lemma try_block_Inr:
  "try_block lib p d m x w = (Inr out, w') \<Longrightarrow>
     \<exists>opened img q.
       Image_open lib p (map_of (files w) p) = Inr opened \<and>
       convert_RGB lib opened = Inr img \<and>
       render lib img d m x = Inr q \<and>
       with_name p (path_stem p @ ''_'' @ m @ ''_output.bmp'') = Inr out \<and>
       \<not> is_dir (files w) out \<and>
       save_exn lib out (files w) q = None \<and>
       w' = w\<lparr>files := (out, File (Bmp q)) # files w,
               trace := trace w @ [EvOpen p, EvSave out, EvPrint (success_message p out)]\<rparr>"
  by (auto simp: try_block_def save_def emit_def Let_def
           split: sum.splits if_splits option.splits prod.splits)

lemma convert_image_True:
  "convert_image lib p d m x w = (True, w') \<Longrightarrow>
     \<exists>out. try_block lib p d m x w = (Inr out, w')"
  by (auto simp: convert_image_def split: sum.splits prod.splits)

lemma convert_image_False:
  "convert_image lib p d m x w = (False, w') \<Longrightarrow>
     \<exists>e w1. try_block lib p d m x w = (Inl e, w1) \<and> w' = emit (EvPrintErr (error_message p e)) w1"
  by (auto simp: convert_image_def split: sum.splits prod.splits)

lemma convert_image_trace:
  "\<exists>evs r. trace (snd (convert_image lib p d m x w)) = trace w @ EvOpen p # evs @ [r] \<and>
     opened_paths evs = [] \<and> filter is_report evs = [] \<and> report_for p r"
proof (cases "convert_image lib p d m x w")
  case (Pair b w')
  show ?thesis
  proof (cases b)
    case True
    with Pair obtain out where "try_block lib p d m x w = (Inr out, w')"
      by (auto dest: convert_image_True)
    from try_block_Inr [OF this]
    have "trace w' = trace w @ EvOpen p # [EvSave out] @ [EvPrint (success_message p out)]"
      by auto
    moreover have "report_for p (EvPrint (success_message p out))"
      unfolding report_for_def by blast
    ultimately show ?thesis
      unfolding Pair by (intro exI [of _ "[EvSave out]"] exI conjI) simp_all
  next
    case False
    with Pair obtain e w1 where tb: "try_block lib p d m x w = (Inl e, w1)"
      and w': "w' = emit (EvPrintErr (error_message p e)) w1"
      by (auto dest: convert_image_False)
    have r: "report_for p (EvPrintErr (error_message p e))"
      unfolding report_for_def error_message_def by blast
    from try_block_Inl [OF tb] obtain evs where
      w1: "w1 = w\<lparr>trace := trace w @ EvOpen p # evs\<rparr>"
      and shape: "evs = [] \<or> (\<exists>out. evs = [EvSave out])"
      by blast
    have "trace w' = trace w @ EvOpen p # evs @ [EvPrintErr (error_message p e)]"
      by (simp add: w' w1 emit_def)
    moreover from shape have "opened_paths evs = []" "filter is_report evs = []"
      by auto
    ultimately show ?thesis
      using r unfolding Pair by (intro exI [of _ evs] exI conjI) simp_all
  qed
qed

lemma convert_image_files:
  assumes "lower (path_suffix q) \<in> set image_suffixes"
  shows "map_of (files (snd (convert_image lib p d m x w))) q = map_of (files w) q"
proof (cases "convert_image lib p d m x w")
  case (Pair b w')
  show ?thesis
  proof (cases b)
    case True
    with Pair obtain out where tb: "try_block lib p d m x w = (Inr out, w')"
      by (auto dest: convert_image_True)
    from try_block_Inr [OF tb] obtain img where
      wn: "with_name p ((path_stem p @ ''_'' @ m) @ ''_output.bmp'') = Inr out"
      and f: "files w' = (out, File (Bmp img)) # files w"
      by auto
    from wn have "path_suffix out = ''.bmp''" by (rule with_name_suffix)
    with assms bmp_not_image_suffix have "q \<noteq> out" by auto
    with f show ?thesis by (simp add: Pair)
  next
    case False
    with Pair obtain e w1 where tb: "try_block lib p d m x w = (Inl e, w1)"
      and w': "w' = emit (EvPrintErr (error_message p e)) w1"
      by (auto dest: convert_image_False)
    from try_block_Inl [OF tb] show ?thesis by (auto simp: Pair w' emit_def)
  qed
qed

lemma resample_scale: "resample lib ''scale'' img target = ImageOps_fit lib img target"
  by (simp add: resample_def)

lemma resample_cut: "resample lib ''cut'' img target = ImageOps_pad lib img target (255, 255, 255)"
  by (simp add: resample_def)

lemma render_unknown_mode:
  "m \<noteq> ''scale'' \<Longrightarrow> m \<noteq> ''cut'' \<Longrightarrow>
     render lib img d m x = Inl (ValueError (''Unknown mode: '' @ m))"
  by (simp add: render_def resample_def split: prod.splits)

subsection \<open>What a directory run does\<close>

lemma new_events_append: "trace w' = trace w @ evs \<Longrightarrow> new_events w w' = evs"
  by (simp add: new_events_def)

lemma list_all2_right: "list_all2 P xs ys \<Longrightarrow> y \<in> set ys \<Longrightarrow> \<exists>x \<in> set xs. P x y"
  by (induction rule: list_all2_induct) auto

lemma sorted_filter_sort: "sorted (filter P (sort xs))"
  using sorted_filter [of "\<lambda>q. q" "sort xs" P] by simp

lemma not_report_invalid: "\<not> report_for p (EvPrintErr (invalid_path_message root))"
  by (simp add: report_for_def invalid_path_message_def)

lemma is_report_report_for: "report_for p r \<Longrightarrow> is_report r"
  by (auto simp: report_for_def)

lemma opened_paths_report: "is_report r \<Longrightarrow> opened_paths (r # evs) = opened_paths evs"
  by (cases r) simp_all

lemma process_entries_trace:
  assumes "\<And>q. lower (path_suffix q) \<in> set image_suffixes \<Longrightarrow> map_of (files w) q = map_of f q"
  shows "\<exists>evs. trace (process_entries lib d m x ps w) = trace w @ evs \<and>
           opened_paths evs = filter (wanted f) ps \<and>
           list_all2 report_for (filter (wanted f) ps) (filter is_report evs)"
  using assms
proof (induction ps arbitrary: w)
  case Nil
  then show ?case by simp
next
  case (Cons p ps)
  show ?case
  proof (cases "wanted f p")
    case True
    then have here: "is_file (files w) p \<and> lower (path_suffix p) \<in> set image_suffixes"
      using Cons.prems [of p] by (simp add: wanted_def is_file_def)
    define w1 where "w1 = snd (convert_image lib p d m x w)"
    have keep: "\<And>q. lower (path_suffix q) \<in> set image_suffixes \<Longrightarrow> map_of (files w1) q = map_of f q"
      unfolding w1_def using Cons.prems by (simp add: convert_image_files)
    from Cons.IH [OF keep] obtain evs2 where
      t2: "trace (process_entries lib d m x ps w1) = trace w1 @ evs2"
      and o2: "opened_paths evs2 = filter (wanted f) ps"
      and r2: "list_all2 report_for (filter (wanted f) ps) (filter is_report evs2)"
      by blast
    from convert_image_trace [of lib p d m x w] obtain evs1 r where
      t1: "trace w1 = trace w @ EvOpen p # evs1 @ [r]"
      and o1: "opened_paths evs1 = []" and r1: "filter is_report evs1 = []"
      and rp: "report_for p r"
      unfolding w1_def by blast
    from rp have rr: "is_report r"
      by (rule is_report_report_for)
    have "trace (process_entries lib d m x (p # ps) w) = trace w @ (EvOpen p # evs1 @ [r] @ evs2)"
      using here t1 t2 by (simp add: w1_def)
    moreover have "opened_paths (EvOpen p # evs1 @ [r] @ evs2) = filter (wanted f) (p # ps)"
      using True o1 o2 rr by (simp add: opened_paths_report)
    moreover have "list_all2 report_for (filter (wanted f) (p # ps))
        (filter is_report (EvOpen p # evs1 @ [r] @ evs2))"
      using True r1 r2 rr rp by simp
    ultimately show ?thesis by blast
  next
    case False
    then have skip: "\<not> (is_file (files w) p \<and> lower (path_suffix p) \<in> set image_suffixes)"
      using Cons.prems [of p] by (auto simp: wanted_def is_file_def)
    from Cons.IH [OF Cons.prems] obtain evs where
      "trace (process_entries lib d m x ps w) = trace w @ evs"
      "opened_paths evs = filter (wanted f) ps"
      "list_all2 report_for (filter (wanted f) ps) (filter is_report evs)"
      by blast
    with False skip show ?thesis by auto
  qed
qed

lemma split_last_part:
  "length q = Suc (length root) \<and> take (length root) q = root \<longleftrightarrow> (\<exists>n. q = root @ [n])"
proof
  assume a: "length q = Suc (length root) \<and> take (length root) q = root"
  then have "length (drop (length root) q) = 1" by simp
  then obtain n where "drop (length root) q = [n]"
    by (cases "drop (length root) q") auto
  with a have "q = root @ [n]" by (metis append_take_drop_id)
  then show "\<exists>n. q = root @ [n]" ..
next
  assume "\<exists>n. q = root @ [n]"
  then show "length q = Suc (length root) \<and> take (length root) q = root" by auto
qed

lemma split_below:
  "length root < length q \<and> take (length root) q = root \<longleftrightarrow> (\<exists>ns. ns \<noteq> [] \<and> q = root @ ns)"
proof
  assume a: "length root < length q \<and> take (length root) q = root"
  then have "drop (length root) q \<noteq> []" by simp
  moreover from a have "q = root @ drop (length root) q" by (metis append_take_drop_id)
  ultimately show "\<exists>ns. ns \<noteq> [] \<and> q = root @ ns" by blast
next
  assume "\<exists>ns. ns \<noteq> [] \<and> q = root @ ns"
  then show "length root < length q \<and> take (length root) q = root" by auto
qed

lemma set_glob:
  "set (glob f root (if recursive then ''**/*'' else ''*'')) =
     {q \<in> fst ` set f.
        if recursive then \<exists>ns. ns \<noteq> [] \<and> q = root @ ns else \<exists>n. q = root @ [n]}"
  by (simp add: glob_def split_last_part split_below)

lemma distinct_glob: "distinct (glob f root pattern)"
  by (simp add: glob_def)

lemma is_file_listed: "is_file f q \<Longrightarrow> q \<in> fst ` set f"
  by (auto simp: is_file_def split: option.splits dest: map_of_SomeD intro: rev_image_eqI)

lemma is_dir_not_file: "is_dir f p \<Longrightarrow> \<not> is_file f p"
  by (auto simp: is_dir_def is_file_def split: option.splits node.splits)

lemma process_path_dir:
  assumes "is_dir (files w) root"
  shows "\<exists>evs. trace (process_path lib root recursive d m x w) = trace w @ evs \<and>
           opened_paths evs =
             filter (wanted (files w)) (sort (glob (files w) root (if recursive then ''**/*'' else ''*''))) \<and>
           list_all2 report_for
             (filter (wanted (files w)) (sort (glob (files w) root (if recursive then ''**/*'' else ''*''))))
             (filter is_report evs)"
proof -
  have eq: "process_path lib root recursive d m x w =
      process_entries lib d m x (sort (glob (files w) root (if recursive then ''**/*'' else ''*''))) w"
    using assms is_dir_not_file [OF assms] by (simp add: process_path_def)
  show ?thesis
    unfolding eq by (rule process_entries_trace) (rule refl)
qed

lemma process_path_file:
  assumes "is_file (files w) root" "lower (path_suffix root) \<in> set image_suffixes"
  shows "\<exists>evs r. new_events w (process_path lib root recursive d m x w) = EvOpen root # evs @ [r] \<and>
           opened_paths evs = [] \<and> filter is_report evs = [] \<and> report_for root r"
proof -
  have "process_path lib root recursive d m x w = snd (convert_image lib root d m x w)"
    using assms by (simp add: process_path_def)
  with convert_image_trace [of lib root d m x w] show ?thesis
    by (auto simp: new_events_def)
qed

subsection \<open>Concrete runs\<close>

lemmas run_defs =
  convert_image_def try_block_def emit_def render_def resample_def target_size_def
  quantize_def pal_image_def P_convert_RGB_def palette_entry_def triples_EPAPER
  with_name_def path_name_def path_stem_def path_suffix_def save_def is_dir_def is_file_def
  success_message_def error_message_def path_str_def exn_str.simps ValueError_def quoted_def
  lower_def lower_char_def image_suffixes_def

lemmas toy_defs =
  toy_lib_def toy_open_def toy_fit_def toy_pad_def toy_quantize_def toy_index_def pics_def

lemma toy_render: "render toy_lib two_pixels None ''scale'' 3 = Inr all_white"
  by (simp add: run_defs toy_defs two_pixels_def all_white_def)

lemma toy_convert_b:
  "convert_image toy_lib [''pics'', ''b.JPG''] None ''scale'' 3 pics = (True, pics_b)"
  by (simp add: run_defs toy_defs pics_b_def all_black_def)

lemma toy_convert_poster:
  "convert_image toy_lib [''pics'', ''b.JPG''] None ''poster'' 3 pics = (False, pics_poster)"
  by (simp add: run_defs toy_defs pics_poster_def)

lemma toy_convert_gone:
  "convert_image toy_lib [''pics'', ''gone.jpg''] None ''poster'' 3 pics = (False, pics_gone)"
  by (simp add: run_defs toy_defs pics_gone_def)

lemma toy_convert_photo:
  "convert_image toy_lib [''photo.jpg''] None ''scale'' 3 desk = (True, desk_done)"
  by (simp add: run_defs toy_defs desk_def desk_done_def all_white_def)

lemma toy_glob: "sort (glob (files pics) [''pics''] ''*'') =
  [[''pics'', ''a.png''], [''pics'', ''b.JPG''], [''pics'', ''notes.txt''], [''pics'', ''sub'']]"
  by (simp add: glob_def pics_def)

lemma toy_glob_rec: "sort (glob (files pics) [''pics''] ''**/*'') =
  [[''pics'', ''a.png''], [''pics'', ''b.JPG''], [''pics'', ''notes.txt''], [''pics'', ''sub''],
   [''pics'', ''sub'', ''c.jpeg'']]"
  by (simp add: glob_def pics_def)

lemma toy_convert_a:
  "convert_image toy_lib [''pics'', ''a.png''] None ''scale'' 3 pics = (False, pics_a)"
  by (simp add: run_defs toy_defs pics_a_def)

lemma toy_convert_b_after_a:
  "convert_image toy_lib [''pics'', ''b.JPG''] None ''scale'' 3 pics_a = (True, pics_run)"
  by (simp add: run_defs toy_defs pics_a_def pics_run_def all_black_def)

lemma toy_convert_c:
  "convert_image toy_lib [''pics'', ''sub'', ''c.jpeg''] None ''scale'' 3 pics_run = (True, pics_rec)"
  by (simp add: run_defs toy_defs pics_run_def pics_rec_def white_tall_def)

lemma toy_kinds:
  "is_dir (files pics) [''pics'']"
  "\<not> is_file (files pics) [''pics'']"
  "is_file (files pics) [''pics'', ''a.png'']"
  "is_file (files pics_a) [''pics'', ''b.JPG'']"
  "is_file (files pics) [''pics'', ''notes.txt'']"
  "\<not> is_file (files pics_run) [''pics'', ''sub'']"
  by (simp_all add: is_dir_def is_file_def pics_def pics_a_def pics_run_def)

lemma toy_kinds_rec:
  "is_file (files pics_run) [''pics'', ''sub'', ''c.jpeg'']"
  "is_file (files pics) [''pics'', ''sub'', ''c.jpeg'']"
  "is_file (files pics) [''pics'', ''b.JPG'']"
  by (simp_all add: is_file_def pics_def pics_run_def)

lemma toy_suffixes:
  "lower (path_suffix [''pics'', ''a.png'']) \<in> set image_suffixes"
  "lower (path_suffix [''pics'', ''b.JPG'']) \<in> set image_suffixes"
  "lower (path_suffix [''pics'', ''notes.txt'']) \<notin> set image_suffixes"
  "lower (path_suffix [''pics'', ''sub'', ''c.jpeg'']) \<in> set image_suffixes"
  by (simp_all add: path_suffix_def path_name_def lower_def lower_char_def image_suffixes_def)

lemma toy_process_pics:
  "process_path toy_lib [''pics''] False None ''scale'' 3 pics = pics_run"
  by (simp add: process_path_def toy_glob toy_kinds toy_suffixes toy_convert_a
        toy_convert_b_after_a)

lemma toy_process_pics_rec:
  "process_path toy_lib [''pics''] True None ''scale'' 3 pics = pics_rec"
  by (simp add: process_path_def toy_glob_rec toy_kinds toy_kinds_rec toy_suffixes toy_convert_a
        toy_convert_b_after_a toy_convert_c)

lemma toy_converted:
  "converted toy_lib [''pics''] False None ''scale'' 3 pics =
     [[''pics'', ''a.png''], [''pics'', ''b.JPG'']]"
  "converted toy_lib [''pics''] True None ''scale'' 3 pics =
     [[''pics'', ''a.png''], [''pics'', ''b.JPG''], [''pics'', ''sub'', ''c.jpeg'']]"
  by (simp_all only: converted_def toy_process_pics toy_process_pics_rec)
     (simp_all add: new_events_def pics_rec_def pics_run_def pics_def)

lemma toy_try_a:
  "try_block toy_lib [''pics'', ''a.png''] None ''scale'' 3 pics =
     (Inl (Exception ''UnidentifiedImageError'' (''cannot identify image file '' @ quoted ''pics/a.png'')),
      pics\<lparr>trace := [EvOpen [''pics'', ''a.png'']]\<rparr>)"
  by (simp add: run_defs toy_defs)

lemma toy_wanted:
  "filter (wanted (files pics)) (sort (glob (files pics) [''pics''] ''*'')) =
     [[''pics'', ''a.png''], [''pics'', ''b.JPG'']]"
  by (simp add: toy_glob wanted_def toy_kinds toy_kinds_rec toy_suffixes)
     (simp add: is_file_def pics_def path_suffix_def path_name_def)

section \<open>The claims\<close>

text \<open>
  Claim C1. Whatever the library decodes, resamples and chooses as palette indices, and
  whatever the dither number, every pixel of \<^verbatim>\<open>quantized_image\<close> is one of the colours
  of the first seven palette entries, and so is every pixel of the bitmap a successful
  conversion saves.
\<close>

theorem quantized_pixels_in_palette:
  "set (take 7 (triples EPAPER_PALETTE)) = palette_colors \<and>
   (render lib img d m x = Inr q \<longrightarrow> set (im_pixels q) \<subseteq> palette_colors) \<and>
   (convert_image lib p d m x w = (True, w') \<longrightarrow>
      (\<exists>out q. files w' = (out, File (Bmp q)) # files w \<and> set (im_pixels q) \<subseteq> palette_colors))"
proof (intro conjI impI)
  show "set (take 7 (triples EPAPER_PALETTE)) = palette_colors"
    by (auto simp: triples_EPAPER palette_colors_def)
  show "set (im_pixels q) \<subseteq> palette_colors" if "render lib img d m x = Inr q"
    using that by (rule render_palette)
  show "\<exists>out q. files w' = (out, File (Bmp q)) # files w \<and> set (im_pixels q) \<subseteq> palette_colors"
    if "convert_image lib p d m x w = (True, w')"
  proof -
    from that obtain out where "try_block lib p d m x w = (Inr out, w')"
      by (auto dest: convert_image_True)
    from try_block_Inr [OF this] obtain img q where
      "render lib img d m x = Inr q" "files w' = (out, File (Bmp q)) # files w"
      by auto
    with render_palette show ?thesis by blast
  qed
qed

theorem quantized_pixels_in_palette_witness:
  "render toy_lib two_pixels None ''scale'' 3 = Inr all_white \<and>
   set (im_pixels all_white) \<subseteq> palette_colors \<and>
   convert_image toy_lib [''pics'', ''b.JPG''] None ''scale'' 3 pics = (True, pics_b) \<and>
   (\<exists>out q. files pics_b = (out, File (Bmp q)) # files pics \<and> set (im_pixels q) \<subseteq> palette_colors)"
  using quantized_pixels_in_palette [where lib = toy_lib and img = two_pixels and d = None
      and m = "''scale''" and x = 3 and q = all_white and p = "[''pics'', ''b.JPG'']"
      and w = pics and w' = pics_b]
  by (simp add: toy_convert_b toy_render)

text \<open>
  Claim C2. The target size: (800, 480) for the override \<^verbatim>\<open>landscape\<close>, (480, 800) for
  \<^verbatim>\<open>portrait\<close>; with any other direction, (800, 480) when the source is wider than
  high and (480, 800) otherwise, a square source included.
\<close>

theorem target_size_selection:
  "target_size (Some ''landscape'') w h = (800, 480) \<and>
   target_size (Some ''portrait'') w h = (480, 800) \<and>
   (d \<noteq> Some ''landscape'' \<and> d \<noteq> Some ''portrait'' \<longrightarrow>
      (h < w \<longrightarrow> target_size d w h = (800, 480)) \<and>
      (w \<le> h \<longrightarrow> target_size d w h = (480, 800)) \<and>
      target_size d w w = (480, 800))"
  by (simp add: target_size_def)

theorem target_size_selection_witness:
  "target_size None 1000 500 = (800, 480) \<and> target_size None 400 900 = (480, 800) \<and>
   target_size None 640 640 = (480, 800) \<and> target_size (Some ''portrait'') 1000 500 = (480, 800)"
  using target_size_selection [of 1000 500 None] target_size_selection [of 400 900 None]
    target_size_selection [of 640 640 None]
  by simp

text \<open>
  Claim C3, as the code has it. With a mode other than \<^verbatim>\<open>scale\<close> and \<^verbatim>\<open>cut\<close>,
  \<^verbatim>\<open>convert_image\<close> opens and decodes the input first. If that fails, the failure of
  the open or of the decoding is what is reported; if it succeeds, \<^verbatim>\<open>ValueError\<close> with
  the text \<^verbatim>\<open>Unknown mode\<close> and the mode is raised before anything is resized, quantized
  or saved. Either way the call returns \<^verbatim>\<open>False\<close>, prints one error line and leaves the
  file system as it was.
\<close>

theorem unknown_mode_fails_after_open:
  "m \<noteq> ''scale'' \<Longrightarrow> m \<noteq> ''cut'' \<Longrightarrow>
     convert_image lib p d m x w =
       (False,
        w\<lparr>trace := trace w @
           [EvOpen p,
            EvPrintErr (error_message p
              (case Image_open lib p (map_of (files w) p) of
                 Inl e \<Rightarrow> e
               | Inr opened \<Rightarrow>
                   (case convert_RGB lib opened of
                      Inl e \<Rightarrow> e
                    | Inr img \<Rightarrow> ValueError (''Unknown mode: '' @ m))))]\<rparr>)"
  by (simp add: convert_image_def try_block_def render_unknown_mode emit_def split: sum.splits)

theorem unknown_mode_fails_after_open_witness:
  "''poster'' \<noteq> ''scale'' \<and> ''poster'' \<noteq> ''cut'' \<and>
   convert_image toy_lib [''pics'', ''b.JPG''] None ''poster'' 3 pics =
     (False, pics\<lparr>trace := [EvOpen [''pics'', ''b.JPG''],
        EvPrintErr ''Error processing pics/b.JPG: Unknown mode: poster'']\<rparr>)"
proof -
  have m: "''poster'' \<noteq> ''scale''" "''poster'' \<noteq> ''cut''" by simp_all
  have "Image_open toy_lib [''pics'', ''b.JPG''] (map_of (files pics) [''pics'', ''b.JPG'']) =
      Inr \<lparr>im_size = (2, 1), im_pixels = [(10, 20, 30), (250, 250, 250)]\<rparr>"
    by (simp add: toy_defs)
  moreover have "convert_RGB toy_lib = Inr" by (simp add: toy_defs)
  moreover have "trace pics = []" by (simp add: pics_def)
  moreover have "error_message [''pics'', ''b.JPG''] (ValueError ''Unknown mode: poster'') =
      ''Error processing pics/b.JPG: Unknown mode: poster''"
    by (simp add: error_message_def path_str_def ValueError_def)
  ultimately show ?thesis
    using unknown_mode_fails_after_open [OF m, of toy_lib "[''pics'', ''b.JPG'']" None 3 pics] m
    by simp
qed

text \<open>
  The claim as the specification states it, that the error is raised before the input is
  opened, fails: with the mode \<^verbatim>\<open>poster\<close> the file \<^verbatim>\<open>b.JPG\<close> is opened before the
  error is printed, and for a file that is not there the error printed is the one of the
  open, not the one of the mode.
\<close>

theorem unknown_mode_counterexample:
  "convert_image toy_lib [''pics'', ''b.JPG''] None ''poster'' 3 pics = (False, pics_poster) \<and>
   opened_paths (new_events pics pics_poster) = [[''pics'', ''b.JPG'']] \<and>
   convert_image toy_lib [''pics'', ''gone.jpg''] None ''poster'' 3 pics = (False, pics_gone) \<and>
   new_events pics pics_gone \<noteq>
     [EvPrintErr (error_message [''pics'', ''gone.jpg''] (ValueError ''Unknown mode: poster''))]"
  by (simp add: toy_convert_poster toy_convert_gone)
     (simp add: pics_poster_def pics_gone_def new_events_def pics_def)

text \<open>
  Claim C5. An exception raised anywhere in the body of the \<^verbatim>\<open>try\<close> (while opening,
  resizing, quantizing or saving) is caught in \<^verbatim>\<open>convert_image\<close>, which prints
  \<^verbatim>\<open>Error processing\<close>, the path and the text of the exception to standard error and
  returns \<^verbatim>\<open>False\<close>. In a directory run the lines printed are, in order, one report for
  each regular file with an image suffix among the sorted entries, a success line or an
  error line for that file: a file that fails does not keep the files after it from being
  processed, and \<^verbatim>\<open>process_path\<close> returns normally.
\<close>

theorem failures_do_not_abort:
  "(try_block lib p d m x w = (Inl e, w') \<longrightarrow>
      convert_image lib p d m x w =
        (False, emit (EvPrintErr (''Error processing '' @ path_str p @ '': '' @ exn_str e)) w')) \<and>
   (is_dir (files w) root \<longrightarrow>
      list_all2 report_for
        (filter (wanted (files w)) (sort (glob (files w) root (if recursive then ''**/*'' else ''*''))))
        (filter is_report (new_events w (process_path lib root recursive d m x w))))"
proof (intro conjI impI)
  assume "try_block lib p d m x w = (Inl e, w')"
  then show "convert_image lib p d m x w =
      (False, emit (EvPrintErr (''Error processing '' @ path_str p @ '': '' @ exn_str e)) w')"
    by (simp add: convert_image_def error_message_def)
next
  assume "is_dir (files w) root"
  from process_path_dir [OF this, of lib recursive d m x]
  show "list_all2 report_for
        (filter (wanted (files w)) (sort (glob (files w) root (if recursive then ''**/*'' else ''*''))))
        (filter is_report (new_events w (process_path lib root recursive d m x w)))"
    by (auto dest: new_events_append)
qed

theorem failures_do_not_abort_witness:
  "is_dir (files pics) [''pics''] \<and>
   try_block toy_lib [''pics'', ''a.png''] None ''scale'' 3 pics =
     (Inl (Exception ''UnidentifiedImageError'' (''cannot identify image file '' @ quoted ''pics/a.png'')),
      pics\<lparr>trace := [EvOpen [''pics'', ''a.png'']]\<rparr>) \<and>
   convert_image toy_lib [''pics'', ''a.png''] None ''scale'' 3 pics = (False, pics_a) \<and>
   list_all2 report_for [[''pics'', ''a.png''], [''pics'', ''b.JPG'']]
     [EvPrintErr (''Error processing pics/a.png: cannot identify image file '' @ quoted ''pics/a.png''),
      EvPrint ''Successfully converted pics/b.JPG to pics/b_scale_output.bmp'']"
proof -
  have r: "filter is_report (new_events pics pics_run) =
     [EvPrintErr (''Error processing pics/a.png: cannot identify image file '' @ quoted ''pics/a.png''),
      EvPrint ''Successfully converted pics/b.JPG to pics/b_scale_output.bmp'']"
    by (simp add: new_events_def pics_run_def pics_def)
  from failures_do_not_abort [where w = pics and root = "[''pics'']" and recursive = False
      and lib = toy_lib and d = None and m = "''scale''" and x = 3
      and p = "[''pics'', ''a.png'']" and w' = "pics\<lparr>trace := [EvOpen [''pics'', ''a.png'']]\<rparr>"
      and e = "Exception ''UnidentifiedImageError''
          (''cannot identify image file '' @ quoted ''pics/a.png'')"]
  show ?thesis
    by (simp add: toy_try_a toy_kinds toy_wanted toy_process_pics r toy_convert_a)
qed

text \<open>
  Claim C6. For a directory, the files converted are exactly the regular files with
  suffix \<^verbatim>\<open>.jpg\<close>, \<^verbatim>\<open>.jpeg\<close> or \<^verbatim>\<open>.png\<close> in any letter case, among the entries of the
  directory itself without the recursive flag and among the entries at any depth below it
  with the flag; each is converted once, and they are visited in ascending order of their
  paths. For a regular file with such a suffix, that file alone is converted.
\<close>

theorem process_path_converts:
  "(is_dir (files w) root \<longrightarrow>
      sorted (converted lib root recursive d m x w) \<and>
      distinct (converted lib root recursive d m x w) \<and>
      set (converted lib root recursive d m x w) =
        {q. (if recursive then \<exists>ns. ns \<noteq> [] \<and> q = root @ ns else \<exists>n. q = root @ [n]) \<and>
            is_file (files w) q \<and> lower (path_suffix q) \<in> set image_suffixes}) \<and>
   (is_file (files w) root \<and> lower (path_suffix root) \<in> set image_suffixes \<longrightarrow>
      converted lib root recursive d m x w = [root])"
proof (intro conjI impI)
  assume dir: "is_dir (files w) root"
  let ?pattern = "if recursive then ''**/*'' else ''*''"
  from process_path_dir [OF dir, of lib recursive d m x]
  have c: "converted lib root recursive d m x w =
      filter (wanted (files w)) (sort (glob (files w) root ?pattern))"
    by (auto simp: converted_def dest: new_events_append)
  show "sorted (converted lib root recursive d m x w)"
    unfolding c by (rule sorted_filter_sort)
  show "distinct (converted lib root recursive d m x w)"
    unfolding c by (simp add: distinct_glob)
  show "set (converted lib root recursive d m x w) =
        {q. (if recursive then \<exists>ns. ns \<noteq> [] \<and> q = root @ ns else \<exists>n. q = root @ [n]) \<and>
            is_file (files w) q \<and> lower (path_suffix q) \<in> set image_suffixes}"
    unfolding c using is_file_listed [of "files w"]
    by (auto simp: set_glob wanted_def)
next
  assume "is_file (files w) root \<and> lower (path_suffix root) \<in> set image_suffixes"
  then have "is_file (files w) root" "lower (path_suffix root) \<in> set image_suffixes"
    by simp_all
  from process_path_file [OF this, of lib recursive d m x]
  show "converted lib root recursive d m x w = [root]"
    by (auto simp: converted_def opened_paths_report dest: is_report_report_for)
qed

theorem process_path_converts_witness:
  "is_dir (files pics) [''pics''] \<and>
   converted toy_lib [''pics''] False None ''scale'' 3 pics =
     [[''pics'', ''a.png''], [''pics'', ''b.JPG'']] \<and>
   converted toy_lib [''pics''] True None ''scale'' 3 pics =
     [[''pics'', ''a.png''], [''pics'', ''b.JPG''], [''pics'', ''sub'', ''c.jpeg'']] \<and>
   {[''pics'', ''a.png''], [''pics'', ''b.JPG'']} =
     {q. (\<exists>n. q = [''pics''] @ [n]) \<and> is_file (files pics) q \<and>
         lower (path_suffix q) \<in> set image_suffixes} \<and>
   is_file (files pics) [''pics'', ''b.JPG''] \<and>
   lower (path_suffix [''pics'', ''b.JPG'']) \<in> set image_suffixes \<and>
   converted toy_lib [''pics'', ''b.JPG''] False None ''scale'' 3 pics = [[''pics'', ''b.JPG'']]"
  using process_path_converts [where w = pics and root = "[''pics'']" and recursive = False
      and lib = toy_lib and d = None and m = "''scale''" and x = 3]
    process_path_converts [where w = pics and root = "[''pics'', ''b.JPG'']" and recursive = False
      and lib = toy_lib and d = None and m = "''scale''" and x = 3]
    toy_kinds(1) toy_kinds_rec(3) toy_suffixes(2)
  by (simp add: toy_converted)

text \<open>
  Claim C7. A successful conversion writes exactly one file: its path has the parent of
  the input path and the name made of the input's stem, an underscore, the mode and
  \<^verbatim>\<open>_output.bmp\<close>; afterwards that path holds the bitmap, whatever it held before. The
  input \<^verbatim>\<open>photo.jpg\<close> with mode \<^verbatim>\<open>scale\<close> gives \<^verbatim>\<open>photo_scale_output.bmp\<close>.
\<close>

theorem output_beside_input:
  assumes "convert_image lib p d m x w = (True, w')"
    and "out = butlast p @ [path_stem p @ ''_'' @ m @ ''_output.bmp'']"
  shows "(\<exists>q. files w' = (out, File (Bmp q)) # files w \<and>
            map_of (files w') out = Some (File (Bmp q))) \<and>
         butlast out = butlast p \<and>
         path_name out = path_stem p @ ''_'' @ m @ ''_output.bmp'' \<and>
         new_events w w' = [EvOpen p, EvSave out, EvPrint (success_message p out)] \<and>
         (m = ''scale'' \<or> m = ''cut'')"
proof -
  from assms(1) obtain out' where tb: "try_block lib p d m x w = (Inr out', w')"
    by (auto dest: convert_image_True)
  from try_block_Inr [OF tb] obtain img q where
    r: "render lib img d m x = Inr q"
    and wn: "with_name p (path_stem p @ ''_'' @ m @ ''_output.bmp'') = Inr out'"
    and w': "w' = w\<lparr>files := (out', File (Bmp q)) # files w,
              trace := trace w @ [EvOpen p, EvSave out', EvPrint (success_message p out')]\<rparr>"
    by blast
  from wn have o: "out' = out"
    by (auto simp: with_name_def assms(2) split: if_splits)
  have mode: "m = ''scale'' \<or> m = ''cut''"
    using r render_unknown_mode [of m lib img d x] by auto
  have "(path_stem p @ ''_'' @ m) @ ''_output.bmp'' \<noteq> ''/''"
    by (cases "path_stem p @ ''_'' @ m") auto
  then have "path_name out = path_stem p @ ''_'' @ m @ ''_output.bmp''"
    unfolding assms(2) using path_name_snoc by simp
  with w' o mode show ?thesis
    by (simp add: new_events_def assms(2))
qed

theorem output_beside_input_witness:
  "convert_image toy_lib [''photo.jpg''] None ''scale'' 3 desk = (True, desk_done) \<and>
   butlast [''photo.jpg''] @ [path_stem [''photo.jpg''] @ ''_'' @ ''scale'' @ ''_output.bmp''] =
     [''photo_scale_output.bmp''] \<and>
   map_of (files desk) [''photo_scale_output.bmp''] = Some (File (Data [7])) \<and>
   map_of (files desk_done) [''photo_scale_output.bmp''] = Some (File (Bmp all_white)) \<and>
   new_events desk desk_done =
     [EvOpen [''photo.jpg''], EvSave [''photo_scale_output.bmp''],
      EvPrint ''Successfully converted photo.jpg to photo_scale_output.bmp'']"
proof -
  have name: "[''photo_scale_output.bmp''] =
      butlast [''photo.jpg''] @ [path_stem [''photo.jpg''] @ ''_'' @ ''scale'' @ ''_output.bmp'']"
    by (simp add: path_stem_def path_name_def)
  have old: "map_of (files desk) [''photo_scale_output.bmp''] = Some (File (Data [7]))"
    by (simp add: desk_def)
  have msg: "success_message [''photo.jpg''] [''photo_scale_output.bmp''] =
      ''Successfully converted photo.jpg to photo_scale_output.bmp''"
    by (simp add: success_message_def path_str_def)
  from output_beside_input [OF toy_convert_photo name] toy_convert_photo name [symmetric] old msg
  show ?thesis
    by (auto simp: desk_done_def)
qed

text \<open>
  Claim C8. The palette constant is a table of exactly 256 RGB entries (768 channel
  values): the first seven are black, white, yellow, red, black again, blue and green, in
  this order, and the other 249 are all black. It is a constant: nothing updates it.
\<close>

theorem palette_table:
  "length EPAPER_PALETTE = 3 * 256 \<and>
   length (triples EPAPER_PALETTE) = 256 \<and>
   take 7 (triples EPAPER_PALETTE) =
     [(0, 0, 0), (255, 255, 255), (255, 255, 0), (255, 0, 0), (0, 0, 0), (0, 0, 255), (0, 255, 0)] \<and>
   drop 7 (triples EPAPER_PALETTE) = replicate 249 (0, 0, 0)"
  by (simp add: length_EPAPER triples_EPAPER)

text \<open>
  Claim C9. When the root is a regular file whose suffix is none of the three,
  \<^verbatim>\<open>process_path\<close> changes nothing: no file is opened, no line is printed. The message
  about an invalid path is printed when the root is neither a regular file nor a
  directory, and never when it is one of the two.
\<close>

theorem unsupported_file_is_silent:
  "(is_file (files w) root \<and> lower (path_suffix root) \<notin> set image_suffixes \<longrightarrow>
      process_path lib root recursive d m x w = w) \<and>
   (\<not> is_file (files w) root \<and> \<not> is_dir (files w) root \<longrightarrow>
      process_path lib root recursive d m x w = emit (EvPrintErr (invalid_path_message root)) w) \<and>
   (is_file (files w) root \<or> is_dir (files w) root \<longrightarrow>
      EvPrintErr (invalid_path_message root)
        \<notin> set (new_events w (process_path lib root recursive d m x w)))"
proof (intro conjI impI)
  assume "is_file (files w) root \<and> lower (path_suffix root) \<notin> set image_suffixes"
  then show "process_path lib root recursive d m x w = w"
    by (simp add: process_path_def)
next
  assume "\<not> is_file (files w) root \<and> \<not> is_dir (files w) root"
  then show "process_path lib root recursive d m x w = emit (EvPrintErr (invalid_path_message root)) w"
    by (simp add: process_path_def)
next
  let ?bad = "EvPrintErr (invalid_path_message root)"
  assume exists: "is_file (files w) root \<or> is_dir (files w) root"
  show "?bad \<notin> set (new_events w (process_path lib root recursive d m x w))"
  proof (cases "is_file (files w) root")
    case True
    show ?thesis
    proof (cases "lower (path_suffix root) \<in> set image_suffixes")
      case False
      with True have "process_path lib root recursive d m x w = w"
        by (simp add: process_path_def)
      then show ?thesis by (simp add: new_events_def)
    next
      case suffix: True
      from process_path_file [OF True suffix, of lib recursive d m x] obtain evs r where
        n: "new_events w (process_path lib root recursive d m x w) = EvOpen root # evs @ [r]"
        and e: "filter is_report evs = []" and r: "report_for root r"
        by blast
      have "?bad \<notin> set evs"
      proof
        assume "?bad \<in> set evs"
        then have "?bad \<in> set (filter is_report evs)" by simp
        with e show False by simp
      qed
      moreover from r have "r \<noteq> ?bad"
        using not_report_invalid by blast
      ultimately show ?thesis by (auto simp: n)
    qed
  next
    case False
    with exists have dir: "is_dir (files w) root" by simp
    from process_path_dir [OF dir, of lib recursive d m x] obtain evs where
      t: "trace (process_path lib root recursive d m x w) = trace w @ evs"
      and l: "list_all2 report_for
          (filter (wanted (files w)) (sort (glob (files w) root (if recursive then ''**/*'' else ''*''))))
          (filter is_report evs)"
      by blast
    have "?bad \<notin> set evs"
    proof
      assume "?bad \<in> set evs"
      then have "?bad \<in> set (filter is_report evs)" by simp
      from list_all2_right [OF l this] show False
        using not_report_invalid by blast
    qed
    with new_events_append [OF t] show ?thesis by simp
  qed
qed

theorem unsupported_file_is_silent_witness:
  "is_file (files pics) [''pics'', ''notes.txt''] \<and>
   lower (path_suffix [''pics'', ''notes.txt'']) \<notin> set image_suffixes \<and>
   process_path toy_lib [''pics'', ''notes.txt''] False None ''scale'' 3 pics = pics \<and>
   \<not> is_file (files pics) [''nowhere''] \<and> \<not> is_dir (files pics) [''nowhere''] \<and>
   process_path toy_lib [''nowhere''] False None ''scale'' 3 pics =
     pics\<lparr>trace := [EvPrintErr (''Error: Path '' @ quoted ''nowhere''
        @ '' does not exist or is not a valid file/directory.'')]\<rparr> \<and>
   is_dir (files pics) [''pics''] \<and>
   EvPrintErr (invalid_path_message [''pics'']) \<notin> set (new_events pics pics_run)"
proof -
  have k: "\<not> is_file (files pics) [''nowhere'']" "\<not> is_dir (files pics) [''nowhere'']"
    by (simp_all add: is_file_def is_dir_def pics_def)
  have msg: "emit (EvPrintErr (invalid_path_message [''nowhere''])) pics =
     pics\<lparr>trace := [EvPrintErr (''Error: Path '' @ quoted ''nowhere''
        @ '' does not exist or is not a valid file/directory.'')]\<rparr>"
    by (simp add: emit_def invalid_path_message_def path_str_def pics_def)
  from unsupported_file_is_silent [where w = pics and root = "[''pics'', ''notes.txt'']"
      and lib = toy_lib and recursive = False and d = None and m = "''scale''" and x = 3]
    unsupported_file_is_silent [where w = pics and root = "[''nowhere'']"
      and lib = toy_lib and recursive = False and d = None and m = "''scale''" and x = 3]
    unsupported_file_is_silent [where w = pics and root = "[''pics'']"
      and lib = toy_lib and recursive = False and d = None and m = "''scale''" and x = 3]
  show ?thesis
    by (simp add: toy_kinds toy_suffixes k msg toy_process_pics)
qed


end
